theory Spec2Isabelle
  imports Main
begin

section \<open>Material checkbox (src/material/checkbox/checkbox.ts)\<close>

text \<open>
  The part of the \<open>MatCheckbox\<close> component state that \<open>toggle\<close>, the \<open>checked\<close>
  accessor pair, \<open>_getAriaChecked\<close> and the host class bindings read or write. The
  private fields \<open>_checked\<close>, \<open>_indeterminate\<close>, \<open>_disabled\<close> and \<open>_animationMode\<close> keep
  their names with the leading underscore replaced by \<open>priv_\<close>. Calls of
  \<open>ChangeDetectorRef.markForCheck\<close> are counted in \<open>markForCheckCalls\<close>.
\<close>

datatype LabelPosition = Before | After

record MatCheckbox =
  priv_checked :: bool
  priv_indeterminate :: bool
  priv_disabled :: bool
  labelPosition :: LabelPosition
  priv_animationMode :: "string option"
  markForCheckCalls :: nat

text \<open>\<open>get checked(): boolean { return this._checked; }\<close>\<close>

definition checked :: "MatCheckbox \<Rightarrow> bool" where
  "checked c = priv_checked c"

text \<open>\<open>get indeterminate(): boolean { return this._indeterminate; }\<close>\<close>

definition indeterminate :: "MatCheckbox \<Rightarrow> bool" where
  "indeterminate c = priv_indeterminate c"

text \<open>\<open>get disabled() { return this._disabled; }\<close>\<close>

definition disabled :: "MatCheckbox \<Rightarrow> bool" where
  "disabled c = priv_disabled c"

text \<open>
  The setter of \<open>checked\<close>: the field is written, and the view marked for check, only
  when the new value differs from the current one.
\<close>

definition set_checked :: "bool \<Rightarrow> MatCheckbox \<Rightarrow> MatCheckbox" where
  "set_checked v c =
     (if v \<noteq> checked c
      then c\<lparr>priv_checked := v, markForCheckCalls := Suc (markForCheckCalls c)\<rparr>
      else c)"

text \<open>\<open>toggle(): void { this.checked = !this.checked; }\<close>\<close>

definition toggle :: "MatCheckbox \<Rightarrow> MatCheckbox" where
  "toggle c = set_checked (\<not> checked c) c"

text \<open>
  \<open>_getAriaChecked\<close>: the value of the native input's \<open>aria-checked\<close> attribute.
\<close>

definition getAriaChecked :: "MatCheckbox \<Rightarrow> string" where
  "getAriaChecked c =
     (if checked c then ''true''
      else if indeterminate c then ''mixed'' else ''false'')"

text \<open>
  The class bindings of the \<open>host\<close> metadata of the component: the static class
  \<open>mat-checkbox\<close> followed by each conditional class that is currently switched on.
\<close>

definition hostClasses :: "MatCheckbox \<Rightarrow> string list" where
  "hostClasses c =
     [''mat-checkbox'']
     @ (if indeterminate c then [''mat-checkbox-indeterminate''] else [])
     @ (if checked c then [''mat-checkbox-checked''] else [])
     @ (if disabled c then [''mat-checkbox-disabled''] else [])
     @ (if labelPosition c = Before then [''mat-checkbox-label-before''] else [])
     @ (if priv_animationMode c = Some ''NoopAnimations'' then [''_mat-animation-noopable''] else [])"

section \<open>Protractor element (src/cdk/testing/protractor/protractor-element.ts)\<close>

text \<open>
  What \<open>ProtractorElement\<close> reads from the element it wraps. Strings are lists of
  code units below 256. \<open>attributeMap\<close> is what the script
  \<open>arguments[0].getAttribute(arguments[1])\<close> returns (\<open>None\<close> for \<open>null\<close>);
  \<open>classList\<close> is the node's native token list, which no function below reads;
  \<open>textContent\<close> is what \<open>getText\<close> returns and \<open>valueProperty\<close> the \<open>value\<close> property;
  \<open>multiple\<close> says whether a select element is in multi-selection mode, which no
  function below reads either; \<open>optionCount\<close> is the length of
  \<open>element.all(by.css('option'))\<close>.
\<close>

record ElementFinder =
  attributeMap :: "string \<Rightarrow> string option"
  classList :: "string list"
  textContent :: string
  valueProperty :: string
  multiple :: bool
  optionCount :: nat

definition getAttribute :: "ElementFinder \<Rightarrow> string \<Rightarrow> string option" where
  "getAttribute e name = attributeMap e name"

text \<open>
  The character class \<open>\s\<close> of a JavaScript regular expression, on code units below
  256: tab, line feed, vertical tab, form feed, carriage return, space and the
  no-break space.
\<close>

definition isWhitespace :: "char \<Rightarrow> bool" where
  "isWhitespace c =
     (c \<in> set [CHR 0x09, CHR 0x0A, CHR 0x0B, CHR 0x0C, CHR 0x0D, CHR 0x20, CHR 0xA0])"

text \<open>
  \<open>String.prototype.split\<close> with the separator \<open>/\s+/\<close>: the pieces between the
  maximal runs of whitespace. A run at the start or at the end leaves an empty piece
  there, and the empty string splits into one empty piece.
\<close>

function split_whitespace :: "string \<Rightarrow> string list" where
  "split_whitespace [] = [[]]"
| "split_whitespace (c # cs) =
     (if isWhitespace c then [] # split_whitespace (dropWhile isWhitespace cs)
      else (case split_whitespace cs of
              [] \<Rightarrow> [[c]]
            | p # ps \<Rightarrow> (c # p) # ps))"
  by pat_completeness auto
termination
  by (relation "measure length") (auto simp: less_Suc_eq_le length_dropWhile_le)

text \<open>
  \<open>hasClass\<close>: the class attribute, or the empty string when it is \<open>null\<close> or empty,
  is split; the empty pieces are filtered out (\<open>filter(c => c)\<close>); the name is looked up
  in the set of the pieces that remain.
\<close>

definition hasClass :: "ElementFinder \<Rightarrow> string \<Rightarrow> bool" where
  "hasClass e name =
     (let classes = (case getAttribute e ''class'' of None \<Rightarrow> [] | Some a \<Rightarrow> a)
      in name \<in> set (filter (\<lambda>c. c \<noteq> []) (split_whitespace classes)))"

text \<open>
  The set the specification speaks of, written without the split: the class names of
  an attribute value are its maximal runs of characters that are not whitespace.
\<close>

function whitespaceTokens :: "string \<Rightarrow> string list" where
  "whitespaceTokens [] = []"
| "whitespaceTokens (c # cs) =
     (if isWhitespace c then whitespaceTokens cs
      else takeWhile (\<lambda>x. \<not> isWhitespace x) (c # cs) #
           whitespaceTokens (dropWhile (\<lambda>x. \<not> isWhitespace x) cs))"
  by pat_completeness auto
termination
  by (relation "measure length") (auto simp: less_Suc_eq_le length_dropWhile_le)

text \<open>
  The commands \<open>selectOptions\<close> sends to the browser, in the order they are awaited:
  \<open>setInputValue\<close> on the element, \<open>keyDown\<close> and \<open>keyUp\<close> actions, and a click on the
  option element at an index of the option list.
\<close>

datatype Key = CONTROL | ALT | SHIFT | META

datatype BrowserCommand =
    SetInputValue string
  | KeyDown Key
  | OptionClick nat
  | KeyUp Key

text \<open>
  \<open>selectOptions\<close>. The indices are put into a set; nothing at all is sent unless the
  element has an option and an index was given. Otherwise the value is reset, and the
  loop over the positions of the option list clicks each position that is in the set,
  between pressing and releasing the control key.
\<close>

definition selectOptions :: "ElementFinder \<Rightarrow> int list \<Rightarrow> BrowserCommand list" where
  "selectOptions e optionIndexes =
     (if optionCount e \<noteq> 0 \<and> optionIndexes \<noteq> []
      then SetInputValue [] #
           concat (map (\<lambda>i. if int i \<in> set optionIndexes
                              then [KeyDown CONTROL, OptionClick i, KeyUp CONTROL]
                              else [])
                       [0 ..< optionCount e])
      else [])"

text \<open>
  Readings of a command sequence: whether it starts by resetting the value (which is
  how the selection is cleared), the option positions it clicks, in order, and whether
  the control key is down at each click (\<open>held\<close> is the state of the key before the
  sequence).
\<close>

definition clearsSelectionFirst :: "BrowserCommand list \<Rightarrow> bool" where
  "clearsSelectionFirst cmds = (case cmds of [] \<Rightarrow> False | c # _ \<Rightarrow> c = SetInputValue [])"

fun clickedOptions :: "BrowserCommand list \<Rightarrow> nat list" where
  "clickedOptions [] = []"
| "clickedOptions (OptionClick i # cmds) = i # clickedOptions cmds"
| "clickedOptions (_ # cmds) = clickedOptions cmds"

fun controlHeldAtClicks :: "bool \<Rightarrow> BrowserCommand list \<Rightarrow> bool" where
  "controlHeldAtClicks held [] = True"
| "controlHeldAtClicks held (KeyDown k # cmds) = controlHeldAtClicks (held \<or> k = CONTROL) cmds"
| "controlHeldAtClicks held (KeyUp k # cmds) = controlHeldAtClicks (held \<and> k \<noteq> CONTROL) cmds"
| "controlHeldAtClicks held (OptionClick i # cmds) = (held \<and> controlHeldAtClicks held cmds)"
| "controlHeldAtClicks held (SetInputValue v # cmds) = controlHeldAtClicks held cmds"

section \<open>Synthetic events (src/cdk/testing/testbed/fake-events/event-objects.ts)\<close>

text \<open>
  An event object is read through its properties. A property is either an own property
  of the object, put there by \<open>Object.defineProperty\<close>, or else the getter of the
  prototype, which reads a native slot of the event. \<open>preventDefaultImpl\<close> says which
  function the \<open>preventDefault\<close> property of the object holds. Numbers are integers
  here; \<open>Window\<close> stands for the \<open>window\<close> object.
\<close>

datatype JsValue = Undefined | Null | JsBool bool | JsNumber int | JsString string | Window

datatype PreventDefaultImpl = NativePreventDefault | PatchedPreventDefault

record Event =
  slots :: "string \<Rightarrow> JsValue"
  ownProperties :: "string \<Rightarrow> JsValue option"
  preventDefaultImpl :: PreventDefaultImpl

text \<open>
  The ways in which browsers differ according to the comments of the source: whether
  the native \<open>preventDefault\<close> sets \<open>defaultPrevented\<close> on a synthetic event, whether
  \<open>initKeyEvent\<close> exists, and whether the keyboard initialiser sets \<open>keyCode\<close>.
\<close>

record Browser =
  nativeSetsDefaultPrevented :: bool
  hasInitKeyEvent :: bool
  initSetsKeyCode :: bool

text \<open>\<open>ModifierKeys\<close>: four optional boolean fields.\<close>

record ModifierKeys =
  control :: "bool option"
  alt :: "bool option"
  shift :: "bool option"
  meta :: "bool option"

text \<open>\<open>!!m\<close> and the truthiness test of \<open>if (m)\<close> on an optional boolean.\<close>

definition truthy :: "bool option \<Rightarrow> bool" where
  "truthy m = (m = Some True)"

definition getProperty :: "Event \<Rightarrow> string \<Rightarrow> JsValue" where
  "getProperty event propertyName =
     (case ownProperties event propertyName of
        Some v \<Rightarrow> v
      | None \<Rightarrow> slots event propertyName)"

text \<open>
  \<open>document.createEvent\<close>: an uninitialised event. \<open>buttons\<close> is 0 and
  \<open>defaultPrevented\<close> is false until something sets them.
\<close>

definition createEvent :: "string \<Rightarrow> Event" where
  "createEvent interface =
     \<lparr>slots = (\<lambda>_. Undefined)
        (''type'' := JsString [], ''bubbles'' := JsBool False, ''cancelable'' := JsBool False,
         ''defaultPrevented'' := JsBool False, ''buttons'' := JsNumber 0),
      ownProperties = (\<lambda>_. None),
      preventDefaultImpl = NativePreventDefault\<rparr>"

text \<open>
  \<open>defineReadonlyEventProperty\<close>: an own, configurable accessor property whose getter
  returns the value.
\<close>

definition defineReadonlyEventProperty :: "Event \<Rightarrow> string \<Rightarrow> JsValue \<Rightarrow> Event" where
  "defineReadonlyEventProperty event propertyName v =
     event\<lparr>ownProperties := (ownProperties event)(propertyName := Some v)\<rparr>"

text \<open>
  The native initialisers write the slots they are given; \<open>initMouseEvent\<close> has no
  parameter for \<open>buttons\<close>.
\<close>

definition initMouseEvent ::
  "string \<Rightarrow> bool \<Rightarrow> bool \<Rightarrow> JsValue \<Rightarrow> int \<Rightarrow> int \<Rightarrow> int \<Rightarrow> int \<Rightarrow> int \<Rightarrow>
   bool \<Rightarrow> bool \<Rightarrow> bool \<Rightarrow> bool \<Rightarrow> int \<Rightarrow> JsValue \<Rightarrow> Event \<Rightarrow> Event" where
  "initMouseEvent eventType canBubble cancelable view detail screenX screenY clientX clientY
     ctrlKey altKey shiftKey metaKey button relatedTarget event =
     event\<lparr>slots := (slots event)
       (''type'' := JsString eventType, ''bubbles'' := JsBool canBubble,
        ''cancelable'' := JsBool cancelable, ''view'' := view, ''detail'' := JsNumber detail,
        ''screenX'' := JsNumber screenX, ''screenY'' := JsNumber screenY,
        ''clientX'' := JsNumber clientX, ''clientY'' := JsNumber clientY,
        ''ctrlKey'' := JsBool ctrlKey, ''altKey'' := JsBool altKey,
        ''shiftKey'' := JsBool shiftKey, ''metaKey'' := JsBool metaKey,
        ''button'' := JsNumber button, ''relatedTarget'' := relatedTarget)\<rparr>"

definition initKeyEvent ::
  "Browser \<Rightarrow> string \<Rightarrow> bool \<Rightarrow> bool \<Rightarrow> JsValue \<Rightarrow> bool option \<Rightarrow> bool option \<Rightarrow>
   bool option \<Rightarrow> bool option \<Rightarrow> int \<Rightarrow> Event \<Rightarrow> Event" where
  "initKeyEvent browser eventType canBubble cancelable view ctrlKey altKey shiftKey metaKey
     keyCode event =
     event\<lparr>slots := (slots event)
       (''type'' := JsString eventType, ''bubbles'' := JsBool canBubble,
        ''cancelable'' := JsBool cancelable, ''view'' := view,
        ''ctrlKey'' := JsBool (truthy ctrlKey), ''altKey'' := JsBool (truthy altKey),
        ''shiftKey'' := JsBool (truthy shiftKey), ''metaKey'' := JsBool (truthy metaKey),
        ''keyCode'' := JsNumber (if initSetsKeyCode browser then keyCode else 0))\<rparr>"

definition initKeyboardEvent ::
  "string \<Rightarrow> bool \<Rightarrow> bool \<Rightarrow> JsValue \<Rightarrow> int \<Rightarrow> string \<Rightarrow> int \<Rightarrow> string \<Rightarrow> bool \<Rightarrow>
   Event \<Rightarrow> Event" where
  "initKeyboardEvent eventType canBubble cancelable view char key location modifiersList repeat
     event =
     event\<lparr>slots := (slots event)
       (''type'' := JsString eventType, ''bubbles'' := JsBool canBubble,
        ''cancelable'' := JsBool cancelable, ''view'' := view, ''char'' := JsNumber char,
        ''key'' := JsString key, ''location'' := JsNumber location,
        ''modifiersList'' := JsString modifiersList, ''repeat'' := JsBool repeat)\<rparr>"

text \<open>\<open>String.prototype.trim\<close>: whitespace is removed at both ends.\<close>

definition trim :: "string \<Rightarrow> string" where
  "trim s = rev (dropWhile isWhitespace (rev (dropWhile isWhitespace s)))"

text \<open>
  The native \<open>preventDefault\<close> (bound as \<open>originalPreventDefault\<close>): it sets the
  \<open>defaultPrevented\<close> slot of a cancelable event, on the browsers that do so for a
  synthetic event.
\<close>

definition originalPreventDefault :: "Browser \<Rightarrow> Event \<Rightarrow> Event" where
  "originalPreventDefault browser event =
     (if nativeSetsDefaultPrevented browser \<and> slots event ''cancelable'' = JsBool True
      then event\<lparr>slots := (slots event)(''defaultPrevented'' := JsBool True)\<rparr>
      else event)"

text \<open>
  Calling \<open>event.preventDefault()\<close>: the function installed by \<open>createMouseEvent\<close> and
  \<open>createKeyboardEvent\<close> first defines \<open>defaultPrevented\<close> as true on the event and then
  calls the native function.
\<close>

definition preventDefault :: "Browser \<Rightarrow> Event \<Rightarrow> Event" where
  "preventDefault browser event =
     (case preventDefaultImpl event of
        NativePreventDefault \<Rightarrow> originalPreventDefault browser event
      | PatchedPreventDefault \<Rightarrow>
          originalPreventDefault browser
            (defineReadonlyEventProperty event ''defaultPrevented'' (JsBool True)))"

text \<open>
  \<open>createMouseEvent(type, clientX, clientY, button, modifiers)\<close>; the caller's default
  arguments are \<open>0\<close>, \<open>0\<close>, \<open>0\<close> and the modifiers with no field set.
\<close>

definition createMouseEvent ::
  "string \<Rightarrow> int \<Rightarrow> int \<Rightarrow> int \<Rightarrow> ModifierKeys \<Rightarrow> Event" where
  "createMouseEvent eventType clientX clientY button modifiers =
     (let event = createEvent ''MouseEvent'';
          screenX = clientX;
          screenY = clientY;
          event = initMouseEvent eventType True True Window 0 screenX screenY clientX clientY
                    (truthy (control modifiers)) (truthy (alt modifiers))
                    (truthy (shift modifiers)) (truthy (meta modifiers)) button Null event;
          event = defineReadonlyEventProperty event ''buttons'' (JsNumber 1)
      in event\<lparr>preventDefaultImpl := PatchedPreventDefault\<rparr>)"

text \<open>
  \<open>createKeyboardEvent(type, keyCode, key, modifiers)\<close>; the defaults are \<open>0\<close>, the empty
  string and the modifiers with no field set.
\<close>

definition createKeyboardEvent ::
  "Browser \<Rightarrow> string \<Rightarrow> int \<Rightarrow> string \<Rightarrow> ModifierKeys \<Rightarrow> Event" where
  "createKeyboardEvent browser eventType keyCode key modifiers =
     (let event = createEvent ''KeyboardEvent'';
          event =
            (if hasInitKeyEvent browser
             then initKeyEvent browser eventType True True Window (control modifiers)
                    (alt modifiers) (shift modifiers) (meta modifiers) keyCode event
             else
               (let modifiersList = [];
                    modifiersList = (if truthy (control modifiers)
                                     then modifiersList @ ''Control '' else modifiersList);
                    modifiersList = (if truthy (alt modifiers)
                                     then modifiersList @ ''Alt '' else modifiersList);
                    modifiersList = (if truthy (shift modifiers)
                                     then modifiersList @ ''Shift '' else modifiersList);
                    modifiersList = (if truthy (meta modifiers)
                                     then modifiersList @ ''Meta '' else modifiersList)
                in initKeyboardEvent eventType True True Window 0 key 0 (trim modifiersList)
                     False event));
          event = defineReadonlyEventProperty event ''keyCode'' (JsNumber keyCode);
          event = defineReadonlyEventProperty event ''key'' (JsString key);
          event = defineReadonlyEventProperty event ''ctrlKey'' (JsBool (truthy (control modifiers)));
          event = defineReadonlyEventProperty event ''altKey'' (JsBool (truthy (alt modifiers)));
          event = defineReadonlyEventProperty event ''shiftKey'' (JsBool (truthy (shift modifiers)));
          event = defineReadonlyEventProperty event ''metaKey'' (JsBool (truthy (meta modifiers)))
      in event\<lparr>preventDefaultImpl := PatchedPreventDefault\<rparr>)"

section \<open>Element selector migration (src/cdk/schematics/ng-update/migrations/element-selectors.ts)\<close>

text \<open>
  An entry of the upgrade data (\<open>ElementSelectorUpgradeData\<close>), a resolved template or
  stylesheet (\<open>ResolvedResource\<close>, the fields the migration reads), and a string literal
  node with what the migration asks of it: the kind of its parent if it has one, its
  text, its start offset and the file name of its source file.
\<close>

record ElementSelectorUpgradeData =
  replace :: string
  replaceWith :: string

record ResolvedResource =
  start :: nat
  content :: string
  filePath :: string

datatype SyntaxKind = CallExpression | OtherSyntaxKind

record StringLiteralLike =
  parentKind :: "SyntaxKind option"
  getText :: string
  getStart :: nat
  fileName :: string

datatype Node = StringLiteralLikeNode StringLiteralLike | OtherNode

text \<open>
  The one failure of the migration: a node without a parent belongs to no source file,
  and asking it for its text throws a \<open>TypeError\<close>.
\<close>

datatype MigrationError = TypeError

text \<open>
  The file system of the update tool, as far as the migration uses it: \<open>resolve\<close> turns
  a file name into a workspace path, and \<open>edit(path)\<close> returns the recorder of that
  file, whose \<open>remove\<close> and \<open>insertRight\<close> calls are logged here in the order they are
  made.
\<close>

datatype UpdateRecorderCall =
    Remove string nat nat
  | InsertRight string nat string

record FileSystem =
  resolve :: "string \<Rightarrow> string"
  recorded :: "UpdateRecorderCall list"

text \<open>
  Modelled from the spec: \<open>findAllSubstringIndices\<close> (\<open>../typescript/literal\<close>) is not
  among the sources. By its name and its use it returns, in ascending order, every
  index of the input at which the search string occurs.
\<close>

definition findAllSubstringIndices :: "string \<Rightarrow> string \<Rightarrow> nat list" where
  "findAllSubstringIndices input search =
     filter (\<lambda>i. take (length search) (drop i input) = search) [0 ..< Suc (length input)]"

text \<open>
  \<open>_replaceSelector\<close>: on the recorder of the file, the old selector is removed at
  \<open>start\<close> and the new one inserted at \<open>start\<close>.
\<close>

definition replaceSelector ::
  "string \<Rightarrow> nat \<Rightarrow> ElementSelectorUpgradeData \<Rightarrow> FileSystem \<Rightarrow> FileSystem" where
  "replaceSelector path st selector fs =
     fs\<lparr>recorded := recorded fs @
          [Remove path st (length (replace selector)),
           InsertRight path st (replaceWith selector)]\<rparr>"

text \<open>
  \<open>visitTemplate\<close> and \<open>visitStylesheet\<close>: for each entry of the data, in order, and
  for each index found, in order, the selector is replaced at the start of the
  resource plus the index.
\<close>

definition visitTemplate ::
  "ElementSelectorUpgradeData list \<Rightarrow> ResolvedResource \<Rightarrow> FileSystem \<Rightarrow> FileSystem" where
  "visitTemplate selectors template fs =
     foldl (\<lambda>fs selector.
              foldl (\<lambda>fs st. replaceSelector (filePath template) st selector fs) fs
                (map (\<lambda>offset. start template + offset)
                   (findAllSubstringIndices (content template) (replace selector))))
       fs selectors"

definition visitStylesheet ::
  "ElementSelectorUpgradeData list \<Rightarrow> ResolvedResource \<Rightarrow> FileSystem \<Rightarrow> FileSystem" where
  "visitStylesheet selectors stylesheet fs =
     foldl (\<lambda>fs selector.
              foldl (\<lambda>fs st. replaceSelector (filePath stylesheet) st selector fs) fs
                (map (\<lambda>offset. start stylesheet + offset)
                   (findAllSubstringIndices (content stylesheet) (replace selector))))
       fs selectors"

text \<open>
  \<open>_visitStringLiteralLike\<close>: a literal that has a parent which is not a call
  expression is left alone. Otherwise the node is asked for its text and its source
  file, which throws when the node has no parent, before anything is recorded. For a
  literal in a call expression the text of the node is searched and the offsets count
  from the start of the node.
\<close>

definition visitStringLiteralLike ::
  "ElementSelectorUpgradeData list \<Rightarrow> StringLiteralLike \<Rightarrow> FileSystem \<Rightarrow>
   MigrationError + FileSystem" where
  "visitStringLiteralLike selectors node fs =
     (case parentKind node of
        Some OtherSyntaxKind \<Rightarrow> Inr fs
      | None \<Rightarrow> Inl TypeError
      | Some CallExpression \<Rightarrow>
        (let textContent = getText node;
             path = resolve fs (fileName node)
         in Inr (foldl (\<lambda>fs selector.
                          foldl (\<lambda>fs st. replaceSelector path st selector fs) fs
                            (map (\<lambda>offset. getStart node + offset)
                               (findAllSubstringIndices textContent (replace selector))))
                   fs selectors)))"

definition visitNode ::
  "ElementSelectorUpgradeData list \<Rightarrow> Node \<Rightarrow> FileSystem \<Rightarrow> MigrationError + FileSystem" where
  "visitNode selectors node fs =
     (case node of
        StringLiteralLikeNode literal \<Rightarrow> visitStringLiteralLike selectors literal fs
      | OtherNode \<Rightarrow> Inr fs)"

text \<open>
  Readings of the recorder log. The recorder calls that replace each found occurrence
  of each entry at a base offset; the ranges \<open>(path, start, length)\<close> the log removes;
  and whether two ranges of one file share a position of it.
\<close>

definition replacements ::
  "string \<Rightarrow> nat \<Rightarrow> string \<Rightarrow> ElementSelectorUpgradeData list \<Rightarrow> UpdateRecorderCall list" where
  "replacements path base txt selectors =
     concat (map (\<lambda>selector.
               concat (map (\<lambda>i. [Remove path (base + i) (length (replace selector)),
                                  InsertRight path (base + i) (replaceWith selector)])
                         (findAllSubstringIndices txt (replace selector))))
             selectors)"

fun removedRanges :: "UpdateRecorderCall list \<Rightarrow> (string \<times> nat \<times> nat) list" where
  "removedRanges [] = []"
| "removedRanges (Remove path st len # calls) = (path, st, len) # removedRanges calls"
| "removedRanges (InsertRight path st txt # calls) = removedRanges calls"

definition rangesOverlap :: "(string \<times> nat \<times> nat) \<Rightarrow> (string \<times> nat \<times> nat) \<Rightarrow> bool" where
  "rangesOverlap r1 r2 =
     (case (r1, r2) of
        ((p1, s1, l1), (p2, s2, l2)) \<Rightarrow> p1 = p2 \<and> s1 < s2 + l2 \<and> s2 < s1 + l1)"

fun pairwiseDisjoint :: "(string \<times> nat \<times> nat) list \<Rightarrow> bool" where
  "pairwiseDisjoint [] = True"
| "pairwiseDisjoint (r # rs) = (list_all (\<lambda>r'. \<not> rangesOverlap r r') rs \<and> pairwiseDisjoint rs)"

section \<open>Harness predicates\<close>

text \<open>
  A value that is either a string or a regular expression. A regular expression is
  given by its \<open>test\<close> function.
\<close>

datatype StringOrRegExp = StringPattern string | RegExp "string \<Rightarrow> bool"

text \<open>
  Modelled from the spec: the class \<open>HarnessPredicate\<close> of \<open>@angular/cdk/testing\<close> is not
  among the sources. A predicate is the ordered list of its named checks; a harness
  instance is selected when every check passes. \<open>addOption\<close> registers no check for an
  undefined value (\<open>None\<close>) and otherwise the check \<open>matchFn(harness, value)\<close>.
  \<open>stringMatches\<close> is equality for a string and the pattern's test for a regular
  expression.
\<close>

record 'h HarnessPredicate =
  checks :: "(string \<times> ('h \<Rightarrow> bool)) list"

definition newHarnessPredicate :: "'h HarnessPredicate" where
  "newHarnessPredicate = \<lparr>checks = []\<rparr>"

definition addOption ::
  "string \<Rightarrow> 'v option \<Rightarrow> ('h \<Rightarrow> 'v \<Rightarrow> bool) \<Rightarrow> 'h HarnessPredicate \<Rightarrow> 'h HarnessPredicate" where
  "addOption name v matchFn predicate =
     (case v of
        None \<Rightarrow> predicate
      | Some x \<Rightarrow> predicate\<lparr>checks := checks predicate @ [(name, \<lambda>harness. matchFn harness x)]\<rparr>)"

definition evaluate :: "'h HarnessPredicate \<Rightarrow> 'h \<Rightarrow> bool" where
  "evaluate predicate harness = list_all (\<lambda>check. snd check harness) (checks predicate)"

definition stringMatches :: "string \<Rightarrow> StringOrRegExp \<Rightarrow> bool" where
  "stringMatches s pattern =
     (case pattern of
        StringPattern t \<Rightarrow> s = t
      | RegExp test \<Rightarrow> test s)"

section \<open>Autocomplete harness (src/material-experimental/mdc-autocomplete/testing/autocomplete-harness.ts)\<close>

text \<open>
  The filter types. \<open>AutocompleteHarnessFilters\<close> has the optional field \<open>value\<close>. Of
  the option and option group filters the harness touches only \<open>ancestor\<close>; their other
  fields are the extension of the record.
\<close>

record AutocompleteHarnessFilters =
  valueOption :: "StringOrRegExp option"

record BaseHarnessFilters =
  ancestor :: "string option"

text \<open>
  The page as one harness instance meets it at a call: the host element of the
  harness and whether it has focus; the document root locator, which answers a CSS
  selector with the first element that matches, if any, and a filter of option or
  option group harnesses with all the harnesses that match; and the options clicked
  so far.
\<close>

record ('f, 'o, 'g) Page =
  host :: ElementFinder
  hostFocused :: bool
  locatorForOptional :: "string \<Rightarrow> ElementFinder option"
  locatorForAllOptions :: "'f BaseHarnessFilters_scheme \<Rightarrow> 'o list"
  locatorForAllOptgroups :: "'f BaseHarnessFilters_scheme \<Rightarrow> 'g list"
  clicked :: "'o list"

datatype HarnessError = Error string

text \<open>\<open>getValue\<close>: the \<open>value\<close> property of the host.\<close>

definition getValue :: "('f, 'o, 'g) Page \<Rightarrow> string" where
  "getValue page = valueProperty (host page)"

text \<open>
  The static \<open>with(options)\<close>: a new predicate with the option \<open>value\<close>, matched against
  \<open>getValue\<close>.
\<close>

definition withOptions ::
  "AutocompleteHarnessFilters \<Rightarrow> ('f, 'o, 'g) Page HarnessPredicate" where
  "withOptions options =
     addOption ''value'' (valueOption options)
       (\<lambda>harness v. stringMatches (getValue harness) v)
       newHarnessPredicate"

text \<open>
  \<open>focus\<close>: the host receives focus. \<open>onFocus\<close> is what the page does in reaction
  (the trigger may open its panel) before the call returns.
\<close>

definition focus ::
  "(('f, 'o, 'g) Page \<Rightarrow> ('f, 'o, 'g) Page) \<Rightarrow> ('f, 'o, 'g) Page \<Rightarrow> ('f, 'o, 'g) Page" where
  "focus onFocus page = onFocus (page\<lparr>hostFocused := True\<rparr>)"

text \<open>
  A render that sets an attribute of the host and leaves the rest of the page as it
  is.
\<close>

definition setHostAttribute ::
  "string \<Rightarrow> string \<Rightarrow> ('f, 'o, 'g) Page \<Rightarrow> ('f, 'o, 'g) Page" where
  "setHostAttribute name v page =
     page\<lparr>host := (host page)\<lparr>attributeMap := (attributeMap (host page))(name := Some v)\<rparr>\<rparr>"

text \<open>
  \<open>_getPanelSelector\<close>: \<open>#\<close> followed by the \<open>aria-owns\<close> attribute of the host; the
  template literal prints a \<open>null\<close> attribute as \<open>null\<close>.
\<close>

definition getPanelSelector :: "('f, 'o, 'g) Page \<Rightarrow> string" where
  "getPanelSelector page =
     ''#'' @ (case getAttribute (host page) ''aria-owns'' of None \<Rightarrow> ''null'' | Some a \<Rightarrow> a)"

definition getPanel :: "('f, 'o, 'g) Page \<Rightarrow> ElementFinder option" where
  "getPanel page = locatorForOptional page (getPanelSelector page)"

definition isOpen :: "('f, 'o, 'g) Page \<Rightarrow> bool" where
  "isOpen page =
     (case getPanel page of
        None \<Rightarrow> False
      | Some panel \<Rightarrow> hasClass panel ''mat-mdc-autocomplete-visible'')"

text \<open>
  \<open>getOptions\<close> and \<open>getOptionGroups\<close>: the filters with \<open>ancestor\<close> set to the panel
  selector, located from the document root.
\<close>

definition getOptions :: "'f BaseHarnessFilters_scheme \<Rightarrow> ('f, 'o, 'g) Page \<Rightarrow> 'o list" where
  "getOptions filters page =
     locatorForAllOptions page (filters\<lparr>ancestor := Some (getPanelSelector page)\<rparr>)"

definition getOptionGroups :: "'f BaseHarnessFilters_scheme \<Rightarrow> ('f, 'o, 'g) Page \<Rightarrow> 'g list" where
  "getOptionGroups filters page =
     locatorForAllOptgroups page (filters\<lparr>ancestor := Some (getPanelSelector page)\<rparr>)"

text \<open>\<open>click\<close> of an option harness, logged on the page.\<close>

definition click :: "'o \<Rightarrow> ('f, 'o, 'g) Page \<Rightarrow> ('f, 'o, 'g) Page" where
  "click opt page = page\<lparr>clicked := clicked page @ [opt]\<rparr>"

text \<open>
  \<open>selectOption\<close>: the host is focused, the options are read, and either the error is
  thrown (\<open>Inl\<close>) or the first option is clicked. \<open>stringify\<close> is \<open>JSON.stringify\<close> on
  the filters.
\<close>

definition selectOption ::
  "(('f, 'o, 'g) Page \<Rightarrow> ('f, 'o, 'g) Page) \<Rightarrow> ('f BaseHarnessFilters_scheme \<Rightarrow> string) \<Rightarrow>
   'f BaseHarnessFilters_scheme \<Rightarrow> ('f, 'o, 'g) Page \<Rightarrow> (HarnessError + unit) \<times> ('f, 'o, 'g) Page" where
  "selectOption onFocus stringify filters page =
     (let page = focus onFocus page;
          options = getOptions filters page
      in case options of
           [] \<Rightarrow> (Inl (Error (''Could not find a mat-option matching '' @ stringify filters)), page)
         | opt # _ \<Rightarrow> (Inr (), click opt page))"

text \<open>
  Modelled from the spec: the type \<open>OptionHarnessFilters\<close> of the option harness is not
  among the sources. Besides \<open>ancestor\<close> it has the optional field \<open>text\<close>, a string
  or a regular expression, as in \<open>getOptions({text: "Apple"})\<close>.
\<close>

record OptionHarnessFilters = BaseHarnessFilters +
  textOption :: "StringOrRegExp option"

text \<open>
  \<open>JSON.stringify\<close> on such filters. A string is printed between double quotes,
  with a backslash before a double quote or a backslash and with the escapes of the
  control characters. An object is printed as its defined properties between braces,
  here with those of the base filters first. A regular expression is an object with
  no enumerable property of its own and is printed as \<open>{}\<close>.
\<close>

definition hexDigit :: "nat \<Rightarrow> char" where
  "hexDigit n = ''0123456789abcdef'' ! n"

definition quoteJSONChar :: "char \<Rightarrow> string" where
  "quoteJSONChar c =
     (if c = CHR 0x08 then [CHR 0x5C, CHR ''b'']
      else if c = CHR 0x09 then [CHR 0x5C, CHR ''t'']
      else if c = CHR 0x0A then [CHR 0x5C, CHR ''n'']
      else if c = CHR 0x0C then [CHR 0x5C, CHR ''f'']
      else if c = CHR 0x0D then [CHR 0x5C, CHR ''r'']
      else if c = CHR 0x22 then [CHR 0x5C, CHR 0x22]
      else if c = CHR 0x5C then [CHR 0x5C, CHR 0x5C]
      else if (of_char c :: nat) < 32
        then [CHR 0x5C, CHR ''u'', CHR ''0'', CHR ''0'',
              hexDigit (of_char c div 16), hexDigit (of_char c mod 16)]
      else [c])"

definition quoteJSONString :: "string \<Rightarrow> string" where
  "quoteJSONString s = CHR 0x22 # concat (map quoteJSONChar s) @ [CHR 0x22]"

fun joinWith :: "string \<Rightarrow> string list \<Rightarrow> string" where
  "joinWith separator [] = []"
| "joinWith separator [x] = x"
| "joinWith separator (x # y # ys) = x @ separator @ joinWith separator (y # ys)"

definition JSON_stringify :: "OptionHarnessFilters \<Rightarrow> string" where
  "JSON_stringify filters =
     (let properties =
            (case ancestor filters of
               None \<Rightarrow> []
             | Some a \<Rightarrow> [quoteJSONString ''ancestor'' @ '':'' @ quoteJSONString a])
            @ (case textOption filters of
                 None \<Rightarrow> []
               | Some (StringPattern t) \<Rightarrow> [quoteJSONString ''text'' @ '':'' @ quoteJSONString t]
               | Some (RegExp test) \<Rightarrow> [quoteJSONString ''text'' @ '':'' @ ''{}''])
      in ''{'' @ joinWith '','' properties @ ''}'')"

section \<open>Tooltip harness (src/material/sidenav/testing/sidenav-content-harness.ts)\<close>

text \<open>
  \<open>MatTooltipHarness\<close>: \<open>_optionalPanel\<close> is the optional locator of \<open>.mat-tooltip\<close> from
  the document root. A promise that rejects is \<open>Inl\<close>.
\<close>

definition optionalPanel :: "('f, 'o, 'g) Page \<Rightarrow> ElementFinder option" where
  "optionalPanel page = locatorForOptional page ''.mat-tooltip''"

definition tooltipIsOpen :: "('f, 'o, 'g) Page \<Rightarrow> bool" where
  "tooltipIsOpen page = (optionalPanel page \<noteq> None)"

definition getTooltipText :: "('f, 'o, 'g) Page \<Rightarrow> HarnessError + string" where
  "getTooltipText page =
     (case optionalPanel page of
        None \<Rightarrow> Inr []
      | Some panel \<Rightarrow> Inr (textContent panel))"

section \<open>Checkbox properties\<close>

lemma checked_toggle: "checked (toggle c) = (\<not> checked c)"
  by (simp add: toggle_def set_checked_def checked_def)

lemma indeterminate_toggle: "indeterminate (toggle c) = indeterminate c"
  by (simp add: toggle_def set_checked_def indeterminate_def)

lemma hostClasses_toggle_toggle: "hostClasses (toggle (toggle c)) = hostClasses c"
  by (simp add: hostClasses_def checked_toggle indeterminate_toggle)
    (simp add: toggle_def set_checked_def checked_def disabled_def)

text \<open>
  Claim C7. Two calls of \<open>toggle\<close> bring \<open>checked\<close>, and with it the classes bound on the
  host element, back to what they were, from any state. On a checkbox that is neither
  checked nor indeterminate the first call makes \<open>checked\<close> true and the second makes it
  false again.
\<close>

theorem toggle_twice:
  "checked (toggle (toggle c)) = checked c
   \<and> hostClasses (toggle (toggle c)) = hostClasses c
   \<and> (\<not> checked c \<and> \<not> indeterminate c \<longrightarrow>
        checked (toggle c) \<and> \<not> checked (toggle (toggle c)))"
  by (simp add: checked_toggle hostClasses_toggle_toggle)

theorem toggle_twice_witness:
  "checked (toggle \<lparr>priv_checked = False, priv_indeterminate = False, priv_disabled = False,
      labelPosition = After, priv_animationMode = None, markForCheckCalls = 0\<rparr>)
   \<and> \<not> checked (toggle (toggle \<lparr>priv_checked = False, priv_indeterminate = False,
      priv_disabled = False, labelPosition = After, priv_animationMode = None,
      markForCheckCalls = 0\<rparr>))"
  using toggle_twice [of "\<lparr>priv_checked = False, priv_indeterminate = False, priv_disabled = False,
      labelPosition = After, priv_animationMode = None, markForCheckCalls = 0\<rparr>"]
  by (simp add: checked_def indeterminate_def)

text \<open>
  Claim C9. \<open>_getAriaChecked\<close> answers \<open>true\<close> exactly for a checked checkbox, whatever
  \<open>indeterminate\<close> is; it answers \<open>mixed\<close> exactly for an unchecked, indeterminate one,
  and \<open>false\<close> exactly for an unchecked one that is not indeterminate.
\<close>

theorem getAriaChecked_cases:
  "(getAriaChecked c = ''true'') = checked c
   \<and> (getAriaChecked c = ''mixed'') = (\<not> checked c \<and> indeterminate c)
   \<and> (getAriaChecked c = ''false'') = (\<not> checked c \<and> \<not> indeterminate c)"
  by (simp add: getAriaChecked_def)

section \<open>Protractor element properties\<close>

lemma concat_map_if:
  "concat (map (\<lambda>i. if P i then f i else []) xs) = concat (map f (filter P xs))"
  by (induction xs) simp_all

lemma clickedOptions_control_clicks:
  "clickedOptions (concat (map (\<lambda>i. [KeyDown CONTROL, OptionClick i, KeyUp CONTROL]) xs)) = xs"
  by (induction xs) simp_all

lemma controlHeldAtClicks_control_clicks:
  "controlHeldAtClicks held
     (concat (map (\<lambda>i. [KeyDown CONTROL, OptionClick i, KeyUp CONTROL]) xs))"
  by (induction xs arbitrary: held) simp_all

text \<open>
  Claim C1, as the code has it. \<open>selectOptions\<close> sends nothing when the element has no
  option or no index is given. Otherwise it first resets the value, which clears the
  selection, and then, for each position of the option list that is among the given
  indices, in ascending order and once each, presses the control key, clicks the option
  and releases the key. The control key is down at every click, and the commands are
  the same in single and in multiple selection mode.
\<close>

theorem selectOptions_commands:
  "selectOptions e optionIndexes =
     (if optionCount e = 0 \<or> optionIndexes = [] then []
      else SetInputValue [] #
           concat (map (\<lambda>i. [KeyDown CONTROL, OptionClick i, KeyUp CONTROL])
                     (filter (\<lambda>i. int i \<in> set optionIndexes) [0 ..< optionCount e])))
   \<and> clearsSelectionFirst (selectOptions e optionIndexes)
       = (optionCount e \<noteq> 0 \<and> optionIndexes \<noteq> [])
   \<and> clickedOptions (selectOptions e optionIndexes)
       = filter (\<lambda>i. int i \<in> set optionIndexes) [0 ..< optionCount e]
   \<and> controlHeldAtClicks False (selectOptions e optionIndexes)
   \<and> selectOptions (e\<lparr>multiple := mode\<rparr>) optionIndexes = selectOptions e optionIndexes"
proof -
  have eq: "selectOptions e optionIndexes =
     (if optionCount e = 0 \<or> optionIndexes = [] then []
      else SetInputValue [] #
           concat (map (\<lambda>i. [KeyDown CONTROL, OptionClick i, KeyUp CONTROL])
                     (filter (\<lambda>i. int i \<in> set optionIndexes) [0 ..< optionCount e])))"
    by (simp add: selectOptions_def concat_map_if)
  have first: "clearsSelectionFirst (selectOptions e optionIndexes)
      = (optionCount e \<noteq> 0 \<and> optionIndexes \<noteq> [])"
    by (simp add: eq clearsSelectionFirst_def)
  have clicks: "clickedOptions (selectOptions e optionIndexes)
      = filter (\<lambda>i. int i \<in> set optionIndexes) [0 ..< optionCount e]"
    by (simp add: eq clickedOptions_control_clicks)
  have held: "controlHeldAtClicks False (selectOptions e optionIndexes)"
    by (simp add: eq controlHeldAtClicks_control_clicks)
  have mode: "selectOptions (e\<lparr>multiple := mode\<rparr>) optionIndexes = selectOptions e optionIndexes"
    by (simp add: selectOptions_def)
  from eq first clicks held mode show ?thesis by blast
qed

theorem selectOptions_commands_witness:
  "selectOptions \<lparr>attributeMap = (\<lambda>_. None), classList = [], textContent = [],
      valueProperty = [], multiple = False, optionCount = 3\<rparr> [2, 0, 2, 7, - 1]
   = [SetInputValue [], KeyDown CONTROL, OptionClick 0, KeyUp CONTROL,
      KeyDown CONTROL, OptionClick 2, KeyUp CONTROL]"
  using selectOptions_commands [of "\<lparr>attributeMap = (\<lambda>_. None), classList = [],
      textContent = [], valueProperty = [], multiple = False, optionCount = 3\<rparr>" "[2, 0, 2, 7, - 1]"]
  by (simp add: upt_conv_Cons)

text \<open>
  Called with no index on an element that has three options, \<open>selectOptions\<close> does not
  reset the value: the selection stays as it was.
\<close>

theorem selectOptions_empty_counterexample:
  "\<not> clearsSelectionFirst (selectOptions \<lparr>attributeMap = (\<lambda>_. None), classList = [],
      textContent = [], valueProperty = [], multiple = False, optionCount = 3\<rparr> [])"
  by (simp add: selectOptions_def clearsSelectionFirst_def)

lemma split_whitespace_head:
  "split_whitespace s =
     takeWhile (\<lambda>x. \<not> isWhitespace x) s #
     (case dropWhile (\<lambda>x. \<not> isWhitespace x) s of
        [] \<Rightarrow> []
      | w # r \<Rightarrow> split_whitespace (dropWhile isWhitespace r))"
  by (induction s) simp_all

lemma filter_split_whitespace_dropWhile:
  "filter (\<lambda>c. c \<noteq> []) (split_whitespace (dropWhile isWhitespace s))
   = filter (\<lambda>c. c \<noteq> []) (split_whitespace s)"
  by (cases s) simp_all

lemma filter_split_whitespace:
  "filter (\<lambda>c. c \<noteq> []) (split_whitespace s) = whitespaceTokens s"
proof (induction s rule: whitespaceTokens.induct)
  case 1
  show ?case by simp
next
  case (2 c cs)
  show ?case
  proof (cases "isWhitespace c")
    case True
    with 2 show ?thesis
      by (simp add: filter_split_whitespace_dropWhile)
  next
    case False
    let ?d = "dropWhile (\<lambda>x. \<not> isWhitespace x) cs"
    from False 2 have ih: "filter (\<lambda>c. c \<noteq> []) (split_whitespace ?d) = whitespaceTokens ?d"
      by simp
    have rest: "filter (\<lambda>c. c \<noteq> [])
        (case ?d of [] \<Rightarrow> [] | w # r \<Rightarrow> split_whitespace (dropWhile isWhitespace r))
        = filter (\<lambda>c. c \<noteq> []) (split_whitespace ?d)"
    proof (cases ?d)
      case Nil
      show ?thesis unfolding Nil by simp
    next
      case (Cons w r)
      then have space: "isWhitespace w"
        using hd_dropWhile [of "\<lambda>x. \<not> isWhitespace x" cs] by simp
      show ?thesis unfolding Cons using space by simp
    qed
    have "filter (\<lambda>c. c \<noteq> []) (split_whitespace (c # cs))
        = takeWhile (\<lambda>x. \<not> isWhitespace x) (c # cs) #
          filter (\<lambda>c. c \<noteq> [])
            (case ?d of [] \<Rightarrow> [] | w # r \<Rightarrow> split_whitespace (dropWhile isWhitespace r))"
      using False by (subst split_whitespace_head) simp
    with rest ih False show ?thesis by simp
  qed
qed

text \<open>
  Claim C3. \<open>hasClass\<close> is true exactly when the name is one of the class names of the
  class attribute, read as the empty string when it is missing: the maximal runs of
  characters other than whitespace, which are the pieces of the split that the code
  keeps. For a name that is not empty this is membership in the split itself. The
  native class list of the element has no part in the answer.
\<close>

theorem hasClass_membership:
  "hasClass e name =
     (name \<in> set (whitespaceTokens
                   (case getAttribute e ''class'' of None \<Rightarrow> [] | Some a \<Rightarrow> a)))
   \<and> (name \<noteq> [] \<longrightarrow>
        hasClass e name =
          (name \<in> set (split_whitespace
                        (case getAttribute e ''class'' of None \<Rightarrow> [] | Some a \<Rightarrow> a))))
   \<and> hasClass (e\<lparr>classList := tokens\<rparr>) name = hasClass e name"
proof -
  have tokens_eq: "hasClass e name =
     (name \<in> set (whitespaceTokens
                   (case getAttribute e ''class'' of None \<Rightarrow> [] | Some a \<Rightarrow> a)))"
    by (simp add: hasClass_def Let_def filter_split_whitespace [symmetric])
  have split_eq: "name \<noteq> [] \<longrightarrow>
        hasClass e name =
          (name \<in> set (split_whitespace
                        (case getAttribute e ''class'' of None \<Rightarrow> [] | Some a \<Rightarrow> a)))"
    by (simp add: hasClass_def Let_def)
  have native: "hasClass (e\<lparr>classList := tokens\<rparr>) name = hasClass e name"
    by (simp add: hasClass_def getAttribute_def)
  from tokens_eq split_eq native show ?thesis by blast
qed

theorem hasClass_membership_witness:
  "hasClass \<lparr>attributeMap = [''class'' \<mapsto> '' mat-a  mat-b''], classList = [],
      textContent = [], valueProperty = [], multiple = False, optionCount = 0\<rparr> ''mat-b''
   \<and> ''mat-b'' \<in> set (split_whitespace '' mat-a  mat-b'')
   \<and> \<not> hasClass \<lparr>attributeMap = [''class'' \<mapsto> '' mat-a  mat-b''], classList = [],
      textContent = [], valueProperty = [], multiple = False, optionCount = 0\<rparr> ''mat''"
  using hasClass_membership [of "\<lparr>attributeMap = [''class'' \<mapsto> '' mat-a  mat-b''],
      classList = [], textContent = [], valueProperty = [], multiple = False,
      optionCount = 0\<rparr>" "''mat-b''"]
    hasClass_membership [of "\<lparr>attributeMap = [''class'' \<mapsto> '' mat-a  mat-b''],
      classList = [], textContent = [], valueProperty = [], multiple = False,
      optionCount = 0\<rparr>" "''mat''"]
  by (simp add: getAttribute_def isWhitespace_def)


section \<open>Synthetic event properties\<close>

text \<open>
  Claim C6. A mouse event made by \<open>createMouseEvent\<close> reads 1 for \<open>buttons\<close>, through an
  own property of the event. After \<open>preventDefault()\<close> on an event made by
  \<open>createMouseEvent\<close> or \<open>createKeyboardEvent\<close>, \<open>defaultPrevented\<close> reads true, through an
  own property as well, whether or not the browser sets its native flag.
\<close>

theorem synthetic_event_properties:
  "getProperty (createMouseEvent eventType clientX clientY button modifiers) ''buttons''
     = JsNumber 1
   \<and> ownProperties (createMouseEvent eventType clientX clientY button modifiers) ''buttons''
     = Some (JsNumber 1)
   \<and> getProperty
       (preventDefault browser (createMouseEvent eventType clientX clientY button modifiers))
       ''defaultPrevented'' = JsBool True
   \<and> ownProperties
       (preventDefault browser (createMouseEvent eventType clientX clientY button modifiers))
       ''defaultPrevented'' = Some (JsBool True)
   \<and> getProperty
       (preventDefault browser (createKeyboardEvent browser eventType keyCode key modifiers))
       ''defaultPrevented'' = JsBool True
   \<and> ownProperties
       (preventDefault browser (createKeyboardEvent browser eventType keyCode key modifiers))
       ''defaultPrevented'' = Some (JsBool True)"
  by (simp add: createMouseEvent_def createKeyboardEvent_def Let_def getProperty_def
      defineReadonlyEventProperty_def preventDefault_def originalPreventDefault_def)

theorem synthetic_event_properties_witness:
  "getProperty (createMouseEvent ''mousedown'' 10 20 0
      \<lparr>control = None, alt = None, shift = None, meta = None\<rparr>) ''buttons'' = JsNumber 1
   \<and> getProperty (preventDefault
        \<lparr>nativeSetsDefaultPrevented = False, hasInitKeyEvent = False, initSetsKeyCode = False\<rparr>
        (createKeyboardEvent
           \<lparr>nativeSetsDefaultPrevented = False, hasInitKeyEvent = False, initSetsKeyCode = False\<rparr>
           ''keydown'' 65 ''a'' \<lparr>control = Some True, alt = None, shift = None, meta = None\<rparr>))
       ''defaultPrevented'' = JsBool True"
  using synthetic_event_properties [of "''mousedown''" 10 20 0
      "\<lparr>control = None, alt = None, shift = None, meta = None\<rparr>"]
    synthetic_event_properties [of "''keydown''" _ _ _
      "\<lparr>control = Some True, alt = None, shift = None, meta = None\<rparr>"
      "\<lparr>nativeSetsDefaultPrevented = False, hasInitKeyEvent = False, initSetsKeyCode = False\<rparr>"
      65 "''a''"]
  by simp

section \<open>Element selector migration properties\<close>

lemma recorded_foldl_replaceSelector:
  "recorded (foldl (\<lambda>fs st. replaceSelector path st selector fs) fs starts)
   = recorded fs @ concat (map (\<lambda>st. [Remove path st (length (replace selector)),
                                       InsertRight path st (replaceWith selector)]) starts)"
  by (induction starts arbitrary: fs) (simp_all add: replaceSelector_def)

lemma recorded_foldl_selectors:
  "recorded (foldl (\<lambda>fs selector.
              foldl (\<lambda>fs st. replaceSelector path st selector fs) fs
                (map (\<lambda>offset. base + offset) (findAllSubstringIndices txt (replace selector))))
            fs selectors)
   = recorded fs @ replacements path base txt selectors"
  by (induction selectors arbitrary: fs)
    (simp_all add: replacements_def recorded_foldl_replaceSelector map_concat comp_def)

lemma resolve_foldl_replaceSelector:
  "resolve (foldl (\<lambda>fs st. replaceSelector path st selector fs) fs starts) = resolve fs"
  by (induction starts arbitrary: fs) (simp_all add: replaceSelector_def)

lemma resolve_foldl_selectors:
  "resolve (foldl (\<lambda>fs selector.
              foldl (\<lambda>fs st. replaceSelector path st selector fs) fs (starts selector))
            fs selectors)
   = resolve fs"
  by (induction selectors arbitrary: fs) (simp_all add: resolve_foldl_replaceSelector)

lemma foldl_selectors_eq:
  "foldl (\<lambda>fs selector.
              foldl (\<lambda>fs st. replaceSelector path st selector fs) fs
                (map (\<lambda>offset. base + offset) (findAllSubstringIndices txt (replace selector))))
            fs selectors
   = fs\<lparr>recorded := recorded fs @ replacements path base txt selectors\<rparr>"
  by (rule FileSystem.equality)
    (simp_all add: recorded_foldl_selectors resolve_foldl_selectors)

lemma removedRanges_append: "removedRanges (xs @ ys) = removedRanges xs @ removedRanges ys"
  by (induction xs rule: removedRanges.induct) simp_all

lemma removedRanges_one_selector:
  "removedRanges (concat (map (\<lambda>i. [Remove path (base + i) n, InsertRight path (base + i) txt]) is))
   = map (\<lambda>i. (path, base + i, n)) is"
  by (induction "is") simp_all

lemma removedRanges_replacements:
  "removedRanges (replacements path base txt selectors)
   = concat (map (\<lambda>selector. map (\<lambda>i. (path, base + i, length (replace selector)))
                                  (findAllSubstringIndices txt (replace selector))) selectors)"
  by (induction selectors)
    (simp_all add: replacements_def removedRanges_append removedRanges_one_selector)

lemma findAllSubstringIndices_set:
  "set (findAllSubstringIndices input search)
   = {i. i \<le> length input \<and> take (length search) (drop i input) = search}"
  by (auto simp add: findAllSubstringIndices_def less_Suc_eq_le simp del: upt_Suc)

lemma findAllSubstringIndices_distinct: "distinct (findAllSubstringIndices input search)"
  by (simp add: findAllSubstringIndices_def)

text \<open>
  Claim C8, as the code has it. Visiting a template or a stylesheet records, for each
  entry of the upgrade data in order and for each index at which the old selector
  occurs in the content in ascending order, one removal of the length of the old
  selector at the start of the resource plus the index and one insertion of the new
  selector at the same offset, and nothing else. A string literal node whose parent
  is a call expression is treated the same way, from the start of the node; under any
  other parent nothing is recorded, and a node without a parent makes the visit fail
  before anything is recorded. Each occurrence of an entry is found once. The ranges removed are the ranges of the occurrences themselves, so edits
  overlap where occurrences do.
\<close>

theorem element_selector_edits:
  "recorded (visitTemplate selectors resource fs)
     = recorded fs @ replacements (filePath resource) (start resource) (content resource) selectors
   \<and> recorded (visitStylesheet selectors resource fs)
     = recorded fs @ replacements (filePath resource) (start resource) (content resource) selectors
   \<and> visitNode selectors (StringLiteralLikeNode node) fs
     = (case parentKind node of
          None \<Rightarrow> Inl TypeError
        | Some OtherSyntaxKind \<Rightarrow> Inr fs
        | Some CallExpression \<Rightarrow>
            Inr (fs\<lparr>recorded := recorded fs @
                   replacements (resolve fs (fileName node)) (getStart node) (getText node)
                     selectors\<rparr>))
   \<and> removedRanges (replacements path base txt selectors)
     = concat (map (\<lambda>selector. map (\<lambda>i. (path, base + i, length (replace selector)))
                                    (findAllSubstringIndices txt (replace selector))) selectors)
   \<and> distinct (findAllSubstringIndices txt old)
   \<and> set (findAllSubstringIndices txt old)
     = {i. i \<le> length txt \<and> take (length old) (drop i txt) = old}"
proof -
  have template: "recorded (visitTemplate selectors resource fs)
     = recorded fs @ replacements (filePath resource) (start resource) (content resource) selectors"
    by (simp add: visitTemplate_def recorded_foldl_selectors)
  have stylesheet: "recorded (visitStylesheet selectors resource fs)
     = recorded fs @ replacements (filePath resource) (start resource) (content resource) selectors"
    by (simp add: visitStylesheet_def recorded_foldl_selectors)
  have literal: "visitNode selectors (StringLiteralLikeNode node) fs
     = (case parentKind node of
          None \<Rightarrow> Inl TypeError
        | Some OtherSyntaxKind \<Rightarrow> Inr fs
        | Some CallExpression \<Rightarrow>
            Inr (fs\<lparr>recorded := recorded fs @
                   replacements (resolve fs (fileName node)) (getStart node) (getText node)
                     selectors\<rparr>))"
    by (simp add: visitNode_def visitStringLiteralLike_def Let_def foldl_selectors_eq
        split: option.split SyntaxKind.split)
  from template stylesheet literal removedRanges_replacements
    findAllSubstringIndices_distinct findAllSubstringIndices_set
  show ?thesis by blast
qed

theorem element_selector_edits_witness:
  "recorded (visitTemplate [\<lparr>replace = ''mat-a'', replaceWith = ''mat-b''\<rparr>]
      \<lparr>start = 100, content = ''<mat-a></mat-a>'', filePath = ''a.html''\<rparr>
      \<lparr>resolve = (\<lambda>p. p), recorded = []\<rparr>)
   = [Remove ''a.html'' 101 5, InsertRight ''a.html'' 101 ''mat-b'',
      Remove ''a.html'' 109 5, InsertRight ''a.html'' 109 ''mat-b'']"
  using element_selector_edits
    [where selectors = "[\<lparr>replace = ''mat-a'', replaceWith = ''mat-b''\<rparr>]"
       and resource = "\<lparr>start = 100, content = ''<mat-a></mat-a>'', filePath = ''a.html''\<rparr>"
       and fs = "\<lparr>resolve = (\<lambda>p. p), recorded = []\<rparr>", THEN conjunct1]
  by (simp add: replacements_def findAllSubstringIndices_def upt_conv_Cons)

text \<open>
  With the two entries \<open>mat-tab\<close> and \<open>mat-tab-group\<close>, the template \<open><mat-tab-group>\<close>
  has an occurrence of each at offset 1, and the two removals recorded overlap. And a
  template literal that is not the child of a call expression holds an occurrence of
  \<open>mat-tab\<close> for which nothing is recorded.
\<close>

theorem element_selector_overlap_counterexample:
  "\<not> pairwiseDisjoint (removedRanges (recorded (visitTemplate
      [\<lparr>replace = ''mat-tab'', replaceWith = ''mdc-tab''\<rparr>,
       \<lparr>replace = ''mat-tab-group'', replaceWith = ''mdc-tab-group''\<rparr>]
      \<lparr>start = 0, content = ''<mat-tab-group>'', filePath = ''a.html''\<rparr>
      \<lparr>resolve = (\<lambda>p. p), recorded = []\<rparr>)))
   \<and> findAllSubstringIndices ''`mat-tab`'' ''mat-tab'' = [1]
   \<and> visitNode [\<lparr>replace = ''mat-tab'', replaceWith = ''mdc-tab''\<rparr>]
       (StringLiteralLikeNode \<lparr>parentKind = Some OtherSyntaxKind, getText = ''`mat-tab`'',
          getStart = 10, fileName = ''a.ts''\<rparr>)
       \<lparr>resolve = (\<lambda>p. p), recorded = []\<rparr>
     = Inr \<lparr>resolve = (\<lambda>p. p), recorded = []\<rparr>"
  by (simp add: visitTemplate_def replaceSelector_def findAllSubstringIndices_def upt_conv_Cons
      rangesOverlap_def visitNode_def visitStringLiteralLike_def)

section \<open>Harness predicate properties\<close>

text \<open>
  Claim C2. \<open>addOption\<close> with an undefined value leaves the predicate as it is; with a
  value it adds the requirement that \<open>matchFn\<close> holds of the harness and the value.
  \<open>stringMatches\<close> is equality for a string and the pattern's test for a regular
  expression. The predicate of \<open>MatAutocompleteHarness.with\<close> therefore accepts every
  harness when \<open>value\<close> is absent, the harnesses whose value equals a given string, and
  the harnesses whose value passes the test of a given regular expression.
\<close>

theorem addOption_and_stringMatches:
  "addOption name None matchFn predicate = predicate
   \<and> evaluate (addOption name (Some v) matchFn predicate) harness
       = (evaluate predicate harness \<and> matchFn harness v)
   \<and> stringMatches s (StringPattern t) = (s = t)
   \<and> stringMatches s (RegExp test) = test s
   \<and> evaluate (withOptions options) page
       = (case valueOption options of
            None \<Rightarrow> True
          | Some (StringPattern t) \<Rightarrow> getValue page = t
          | Some (RegExp test) \<Rightarrow> test (getValue page))"
  by (simp add: addOption_def evaluate_def stringMatches_def withOptions_def
      newHarnessPredicate_def split: option.split StringOrRegExp.split)

theorem addOption_and_stringMatches_witness:
  "evaluate (withOptions \<lparr>valueOption = Some (StringPattern ''foo'')\<rparr>)
      \<lparr>host = \<lparr>attributeMap = (\<lambda>_. None), classList = [], textContent = [],
            valueProperty = ''foo'', multiple = False, optionCount = 0\<rparr>, hostFocused = False,
       locatorForOptional = (\<lambda>_. None),
       locatorForAllOptions = (\<lambda>_ :: BaseHarnessFilters. [] :: nat list),
       locatorForAllOptgroups = (\<lambda>_. [] :: nat list), clicked = []\<rparr>
   \<and> \<not> evaluate (withOptions \<lparr>valueOption = Some (StringPattern ''fo'')\<rparr>)
      \<lparr>host = \<lparr>attributeMap = (\<lambda>_. None), classList = [], textContent = [],
            valueProperty = ''foo'', multiple = False, optionCount = 0\<rparr>, hostFocused = False,
       locatorForOptional = (\<lambda>_. None),
       locatorForAllOptions = (\<lambda>_ :: BaseHarnessFilters. [] :: nat list),
       locatorForAllOptgroups = (\<lambda>_. [] :: nat list), clicked = []\<rparr>
   \<and> evaluate (withOptions \<lparr>valueOption = Some (RegExp (\<lambda>s. take 1 s = ''f''))\<rparr>)
      \<lparr>host = \<lparr>attributeMap = (\<lambda>_. None), classList = [], textContent = [],
            valueProperty = ''foo'', multiple = False, optionCount = 0\<rparr>, hostFocused = False,
       locatorForOptional = (\<lambda>_. None),
       locatorForAllOptions = (\<lambda>_ :: BaseHarnessFilters. [] :: nat list),
       locatorForAllOptgroups = (\<lambda>_. [] :: nat list), clicked = []\<rparr>
   \<and> evaluate (withOptions \<lparr>valueOption = None\<rparr>)
      \<lparr>host = \<lparr>attributeMap = (\<lambda>_. None), classList = [], textContent = [],
            valueProperty = ''foo'', multiple = False, optionCount = 0\<rparr>, hostFocused = False,
       locatorForOptional = (\<lambda>_. None),
       locatorForAllOptions = (\<lambda>_ :: BaseHarnessFilters. [] :: nat list),
       locatorForAllOptgroups = (\<lambda>_. [] :: nat list), clicked = []\<rparr>"
  (is "evaluate _ ?page \<and> _")
proof -
  have exact: "evaluate (withOptions \<lparr>valueOption = Some (StringPattern ''foo'')\<rparr>) ?page"
    using addOption_and_stringMatches
      [where options = "\<lparr>valueOption = Some (StringPattern ''foo'')\<rparr>" and page = ?page,
       THEN conjunct2, THEN conjunct2, THEN conjunct2, THEN conjunct2]
    by (simp add: getValue_def)
  have shorter: "\<not> evaluate (withOptions \<lparr>valueOption = Some (StringPattern ''fo'')\<rparr>) ?page"
    using addOption_and_stringMatches
      [where options = "\<lparr>valueOption = Some (StringPattern ''fo'')\<rparr>" and page = ?page,
       THEN conjunct2, THEN conjunct2, THEN conjunct2, THEN conjunct2]
    by (simp add: getValue_def)
  have pattern: "evaluate (withOptions \<lparr>valueOption = Some (RegExp (\<lambda>s. take 1 s = ''f''))\<rparr>) ?page"
    using addOption_and_stringMatches
      [where options = "\<lparr>valueOption = Some (RegExp (\<lambda>s. take 1 s = ''f''))\<rparr>" and page = ?page,
       THEN conjunct2, THEN conjunct2, THEN conjunct2, THEN conjunct2]
    by (simp add: getValue_def)
  have absent: "evaluate (withOptions \<lparr>valueOption = None\<rparr>) ?page"
    using addOption_and_stringMatches
      [where options = "\<lparr>valueOption = None\<rparr>" and page = ?page,
       THEN conjunct2, THEN conjunct2, THEN conjunct2, THEN conjunct2]
    by simp
  from exact shorter pattern absent show ?thesis by blast
qed

section \<open>Autocomplete harness properties\<close>

lemma getPanelSelector_setHostAttribute:
  "getPanelSelector (setHostAttribute ''aria-owns'' newId page) = ''#'' @ newId"
  by (simp add: getPanelSelector_def setHostAttribute_def getAttribute_def)

text \<open>
  Claim C4. Once the \<open>aria-owns\<close> attribute of the host has been set to a new id, by
  whatever render, the next call of \<open>isOpen\<close>, \<open>getOptions\<close> or \<open>getOptionGroups\<close> addresses
  the panel by \<open>#\<close> and the new id, whatever the attribute was at an earlier call; and
  \<open>selectOption\<close> addresses the panel by the id the attribute has after the focus on the
  host has been handled.
\<close>

theorem panel_selector_per_call:
  "getPanelSelector (setHostAttribute ''aria-owns'' newId page) = ''#'' @ newId
   \<and> isOpen (setHostAttribute ''aria-owns'' newId page)
       = (case locatorForOptional page (''#'' @ newId) of
            None \<Rightarrow> False
          | Some panel \<Rightarrow> hasClass panel ''mat-mdc-autocomplete-visible'')
   \<and> getOptions filters (setHostAttribute ''aria-owns'' newId page)
       = locatorForAllOptions page (filters\<lparr>ancestor := Some (''#'' @ newId)\<rparr>)
   \<and> getOptionGroups filters (setHostAttribute ''aria-owns'' newId page)
       = locatorForAllOptgroups page (filters\<lparr>ancestor := Some (''#'' @ newId)\<rparr>)
   \<and> selectOption (\<lambda>p. setHostAttribute ''aria-owns'' newId (onFocus p)) stringify filters page
       = (let shown = setHostAttribute ''aria-owns'' newId (onFocus (page\<lparr>hostFocused := True\<rparr>))
          in case locatorForAllOptions shown (filters\<lparr>ancestor := Some (''#'' @ newId)\<rparr>) of
               [] \<Rightarrow> (Inl (Error (''Could not find a mat-option matching '' @ stringify filters)), shown)
             | opt # _ \<Rightarrow> (Inr (), click opt shown))"
proof -
  have open_eq: "isOpen (setHostAttribute ''aria-owns'' newId page)
       = (case locatorForOptional page (''#'' @ newId) of
            None \<Rightarrow> False
          | Some panel \<Rightarrow> hasClass panel ''mat-mdc-autocomplete-visible'')"
    by (simp add: isOpen_def getPanel_def getPanelSelector_setHostAttribute)
      (simp add: setHostAttribute_def)
  have options_eq: "getOptions filters (setHostAttribute ''aria-owns'' newId page)
       = locatorForAllOptions page (filters\<lparr>ancestor := Some (''#'' @ newId)\<rparr>)"
    by (simp add: getOptions_def getPanelSelector_setHostAttribute)
      (simp add: setHostAttribute_def)
  have groups_eq: "getOptionGroups filters (setHostAttribute ''aria-owns'' newId page)
       = locatorForAllOptgroups page (filters\<lparr>ancestor := Some (''#'' @ newId)\<rparr>)"
    by (simp add: getOptionGroups_def getPanelSelector_setHostAttribute)
      (simp add: setHostAttribute_def)
  have select_eq: "selectOption (\<lambda>p. setHostAttribute ''aria-owns'' newId (onFocus p)) stringify filters page
       = (let shown = setHostAttribute ''aria-owns'' newId (onFocus (page\<lparr>hostFocused := True\<rparr>))
          in case locatorForAllOptions shown (filters\<lparr>ancestor := Some (''#'' @ newId)\<rparr>) of
               [] \<Rightarrow> (Inl (Error (''Could not find a mat-option matching '' @ stringify filters)), shown)
             | opt # _ \<Rightarrow> (Inr (), click opt shown))"
    by (simp add: selectOption_def focus_def Let_def getOptions_def
        getPanelSelector_setHostAttribute)
  from getPanelSelector_setHostAttribute open_eq options_eq groups_eq select_eq
  show ?thesis by blast
qed

theorem panel_selector_per_call_witness:
  "\<not> isOpen (setHostAttribute ''aria-owns'' ''panel-0''
      \<lparr>host = \<lparr>attributeMap = (\<lambda>_. None), classList = [], textContent = [],
            valueProperty = [], multiple = False, optionCount = 0\<rparr>, hostFocused = False,
       locatorForOptional =
         (\<lambda>s. if s = ''#panel-1''
              then Some \<lparr>attributeMap = [''class'' \<mapsto> ''panel mat-mdc-autocomplete-visible''],
                     classList = [], textContent = [], valueProperty = [], multiple = False, optionCount = 0\<rparr>
              else None),
       locatorForAllOptions = (\<lambda>_ :: BaseHarnessFilters. [] :: string list),
       locatorForAllOptgroups = (\<lambda>_. [] :: string list), clicked = []\<rparr>)
   \<and> isOpen (setHostAttribute ''aria-owns'' ''panel-1'' (setHostAttribute ''aria-owns'' ''panel-0''
      \<lparr>host = \<lparr>attributeMap = (\<lambda>_. None), classList = [], textContent = [],
            valueProperty = [], multiple = False, optionCount = 0\<rparr>, hostFocused = False,
       locatorForOptional =
         (\<lambda>s. if s = ''#panel-1''
              then Some \<lparr>attributeMap = [''class'' \<mapsto> ''panel mat-mdc-autocomplete-visible''],
                     classList = [], textContent = [], valueProperty = [], multiple = False, optionCount = 0\<rparr>
              else None),
       locatorForAllOptions = (\<lambda>_ :: BaseHarnessFilters. [] :: string list),
       locatorForAllOptgroups = (\<lambda>_. [] :: string list), clicked = []\<rparr>))"
  (is "\<not> isOpen (setHostAttribute _ _ ?page) \<and> _")
proof -
  have before: "\<not> isOpen (setHostAttribute ''aria-owns'' ''panel-0'' ?page)"
    using panel_selector_per_call [where newId = "''panel-0''" and page = ?page]
    by simp
  have after: "isOpen (setHostAttribute ''aria-owns'' ''panel-1''
      (setHostAttribute ''aria-owns'' ''panel-0'' ?page))"
    using panel_selector_per_call
      [where newId = "''panel-1''" and page = "setHostAttribute ''aria-owns'' ''panel-0'' ?page"]
    by (simp add: setHostAttribute_def hasClass_def getAttribute_def isWhitespace_def)
  from before after show ?thesis by blast
qed

text \<open>
  The two outcomes of \<open>selectOption\<close>. If no option matches the filters in the panel
  after the host has been focused, the call fails with an error whose message ends
  with what \<open>stringify\<close> makes of the filters, and nothing is clicked. If there is a
  matching option, the first one is clicked and the call succeeds.
\<close>

lemma selectOption_outcome:
  "(getOptions filters (focus onFocus page) = [] \<longrightarrow>
      selectOption onFocus stringify filters page
        = (Inl (Error (''Could not find a mat-option matching '' @ stringify filters)),
           focus onFocus page))
   \<and> (\<forall>opt rest. getOptions filters (focus onFocus page) = opt # rest \<longrightarrow>
        selectOption onFocus stringify filters page
          = (Inr (), (focus onFocus page)\<lparr>clicked := clicked (focus onFocus page) @ [opt]\<rparr>))"
  by (simp add: selectOption_def Let_def click_def)

lemma selectOption_outcome_example:
  "fst (selectOption (\<lambda>p. p) (\<lambda>_. ''{}'') \<lparr>ancestor = None\<rparr>
      \<lparr>host = \<lparr>attributeMap = [''aria-owns'' \<mapsto> ''panel-0''], classList = [],
            textContent = [], valueProperty = [], multiple = False, optionCount = 0\<rparr>, hostFocused = False,
       locatorForOptional = (\<lambda>_. None),
       locatorForAllOptions = (\<lambda>_. [] :: string list),
       locatorForAllOptgroups = (\<lambda>_. [] :: string list), clicked = []\<rparr>)
     = Inl (Error ''Could not find a mat-option matching {}'')
   \<and> clicked (snd (selectOption (\<lambda>p. p) (\<lambda>_. ''{}'') \<lparr>ancestor = None\<rparr>
      \<lparr>host = \<lparr>attributeMap = [''aria-owns'' \<mapsto> ''panel-0''], classList = [],
            textContent = [], valueProperty = [], multiple = False, optionCount = 0\<rparr>, hostFocused = False,
       locatorForOptional = (\<lambda>_. None),
       locatorForAllOptions =
         (\<lambda>f. if ancestor f = Some ''#panel-0'' then [''Apple'', ''Apricot''] else []),
       locatorForAllOptgroups = (\<lambda>_. [] :: string list), clicked = []\<rparr>))
     = [''Apple'']"
  (is "fst (selectOption _ _ _ ?none) = _ \<and> clicked (snd (selectOption _ _ _ ?two)) = _")
proof -
  have missing: "fst (selectOption (\<lambda>p. p) (\<lambda>_. ''{}'') \<lparr>ancestor = None\<rparr> ?none)
      = Inl (Error ''Could not find a mat-option matching {}'')"
    using selectOption_outcome
      [where onFocus = "\<lambda>p. p" and stringify = "\<lambda>_. ''{}''" and filters = "\<lparr>ancestor = None\<rparr>"
         and page = ?none]
    by (simp add: getOptions_def focus_def)
  have found: "clicked (snd (selectOption (\<lambda>p. p) (\<lambda>_. ''{}'') \<lparr>ancestor = None\<rparr> ?two))
      = [''Apple'']"
    using selectOption_outcome
      [where onFocus = "\<lambda>p. p" and stringify = "\<lambda>_. ''{}''" and filters = "\<lparr>ancestor = None\<rparr>"
         and page = ?two]
    by (simp add: getOptions_def focus_def getPanelSelector_def getAttribute_def)
  from missing found show ?thesis by blast
qed

lemma JSON_stringify_RegExp:
  "JSON_stringify \<lparr>ancestor = None, textOption = Some (RegExp test)\<rparr>
   = ''{'' @ [CHR 0x22] @ ''text'' @ [CHR 0x22] @ '':{}}''"
  by (simp add: JSON_stringify_def quoteJSONString_def quoteJSONChar_def)

text \<open>
  Claim C5, at filters given by a regular expression. A panel without options is
  searched once for options whose text matches \<open>/^Apple/\<close> and once for \<open>/^Banana/\<close>. Both
  calls fail, and with the same error: its message ends with \<open>{"text":{}}\<close>, which names
  neither pattern, although the filters differ.
\<close>

theorem selectOption_regexp_error:
  "selectOption (\<lambda>p. p) JSON_stringify
      \<lparr>ancestor = None, textOption = Some (RegExp (\<lambda>s. take 5 s = ''Apple''))\<rparr>
      \<lparr>host = \<lparr>attributeMap = [''aria-owns'' \<mapsto> ''panel-0''], classList = [],
            textContent = [], valueProperty = [], multiple = False, optionCount = 0\<rparr>,
       hostFocused = False, locatorForOptional = (\<lambda>_. None),
       locatorForAllOptions = (\<lambda>_. [] :: string list),
       locatorForAllOptgroups = (\<lambda>_. [] :: string list), clicked = []\<rparr>
   = (Inl (Error (''Could not find a mat-option matching {'' @ [CHR 0x22] @ ''text''
                  @ [CHR 0x22] @ '':{}}'')),
      \<lparr>host = \<lparr>attributeMap = [''aria-owns'' \<mapsto> ''panel-0''], classList = [],
            textContent = [], valueProperty = [], multiple = False, optionCount = 0\<rparr>,
       hostFocused = True, locatorForOptional = (\<lambda>_. None),
       locatorForAllOptions = (\<lambda>_. [] :: string list),
       locatorForAllOptgroups = (\<lambda>_. [] :: string list), clicked = []\<rparr>)
   \<and> selectOption (\<lambda>p. p) JSON_stringify
      \<lparr>ancestor = None, textOption = Some (RegExp (\<lambda>s. take 6 s = ''Banana''))\<rparr>
      \<lparr>host = \<lparr>attributeMap = [''aria-owns'' \<mapsto> ''panel-0''], classList = [],
            textContent = [], valueProperty = [], multiple = False, optionCount = 0\<rparr>,
       hostFocused = False, locatorForOptional = (\<lambda>_. None),
       locatorForAllOptions = (\<lambda>_. [] :: string list),
       locatorForAllOptgroups = (\<lambda>_. [] :: string list), clicked = []\<rparr>
   = (Inl (Error (''Could not find a mat-option matching {'' @ [CHR 0x22] @ ''text''
                  @ [CHR 0x22] @ '':{}}'')),
      \<lparr>host = \<lparr>attributeMap = [''aria-owns'' \<mapsto> ''panel-0''], classList = [],
            textContent = [], valueProperty = [], multiple = False, optionCount = 0\<rparr>,
       hostFocused = True, locatorForOptional = (\<lambda>_. None),
       locatorForAllOptions = (\<lambda>_. [] :: string list),
       locatorForAllOptgroups = (\<lambda>_. [] :: string list), clicked = []\<rparr>)
   \<and> (\<lparr>ancestor = None, textOption = Some (RegExp (\<lambda>s. take 5 s = ''Apple''))\<rparr>
        :: OptionHarnessFilters)
     \<noteq> \<lparr>ancestor = None, textOption = Some (RegExp (\<lambda>s. take 6 s = ''Banana''))\<rparr>"
proof -
  have different: "(\<lambda>s. take 5 s = ''Apple'') \<noteq> (\<lambda>s :: string. take 6 s = ''Banana'')"
  proof
    assume "(\<lambda>s. take 5 s = ''Apple'') = (\<lambda>s :: string. take 6 s = ''Banana'')"
    then have "(take 5 ''Apple'' = ''Apple'') = (take 6 ''Apple'' = ''Banana'')"
      by (rule fun_cong)
    then show False by simp
  qed
  show ?thesis
    using different
    by (simp add: selectOption_def Let_def focus_def getOptions_def JSON_stringify_RegExp)
qed


section \<open>Tooltip harness properties\<close>

text \<open>
  Claim C10. When the document has no tooltip panel, \<open>getTooltipText\<close> resolves to the
  empty string and \<open>isOpen\<close> to false. No outcome of \<open>getTooltipText\<close> is an error: a
  missing panel is answered with the empty string.
\<close>

theorem getTooltipText_closed:
  "(locatorForOptional page ''.mat-tooltip'' = None \<longrightarrow>
      getTooltipText page = Inr [] \<and> \<not> tooltipIsOpen page)
   \<and> (\<forall>e. getTooltipText page \<noteq> Inl e)"
  by (simp add: getTooltipText_def tooltipIsOpen_def optionalPanel_def split: option.split)


theorem getTooltipText_closed_witness:
  "getTooltipText
      \<lparr>host = \<lparr>attributeMap = (\<lambda>_. None), classList = [], textContent = [],
            valueProperty = [], multiple = False, optionCount = 0\<rparr>, hostFocused = False,
       locatorForOptional = (\<lambda>_. None),
       locatorForAllOptions = (\<lambda>_ :: BaseHarnessFilters. [] :: nat list),
       locatorForAllOptgroups = (\<lambda>_. [] :: nat list), clicked = []\<rparr> = Inr []
   \<and> \<not> tooltipIsOpen
      \<lparr>host = \<lparr>attributeMap = (\<lambda>_. None), classList = [], textContent = [],
            valueProperty = [], multiple = False, optionCount = 0\<rparr>, hostFocused = False,
       locatorForOptional = (\<lambda>_. None),
       locatorForAllOptions = (\<lambda>_ :: BaseHarnessFilters. [] :: nat list),
       locatorForAllOptgroups = (\<lambda>_. [] :: nat list), clicked = []\<rparr>"
  (is "getTooltipText ?page = _ \<and> _")
  using getTooltipText_closed [of ?page] by simp


end
